theory Spec2Isabelle
  imports Complex_Main "HOL-Library.Sublist"
begin

section \<open>Python values used by the program\<close>

text \<open>
  A Python \<open>str\<close> is modelled as a \<open>string\<close>: one list element per character, so that
  \<open>len\<close> is \<open>length\<close>. Python's unbounded \<open>int\<close> is \<open>int\<close>. The cost of one operation
  is the value of the expression \<open>(tokens / 1_000_000) * 9.0\<close>, written as a \<open>real\<close>.
\<close>

text \<open>
  The running total of the costs is a float that the program builds by repeated
  addition. The addition of floats rounds and is not associative, so it is not
  identified with the addition of the reals: \<open>Float r\<close> is the float with the value
  \<open>r\<close>, and \<open>Fadd x y\<close> is the result of the float addition \<open>x + y\<close>, left
  uninterpreted. \<open>float_value fadd\<close> gives the value under an interpretation \<open>fadd\<close> of
  the addition.
\<close>

datatype pyfloat = Float real | Fadd pyfloat pyfloat

fun float_value :: "(real \<Rightarrow> real \<Rightarrow> real) \<Rightarrow> pyfloat \<Rightarrow> real" where
  "float_value fadd (Float r) = r"
| "float_value fadd (Fadd x y) = fadd (float_value fadd x) (float_value fadd y)"

text \<open>
  The slice \<open>xs[i:]\<close>: a negative start counts from the end and is clamped at the
  front of the list, a start beyond the end gives the empty list.
\<close>

definition py_slice_from :: "int \<Rightarrow> 'a list \<Rightarrow> 'a list" where
  "py_slice_from i xs =
     (let n = int (length xs);
          start = (if i < 0 then max 0 (n + i) else min i n)
      in drop (nat start) xs)"

text \<open>\<open>s.replace('\n', new)\<close>: every line feed is replaced, left to right.\<close>

definition replace_newline :: "string \<Rightarrow> string \<Rightarrow> string" where
  "replace_newline new s = concat (map (\<lambda>c. if c = CHR 0x0A then new else [c]) s)"

section \<open>Token usage tracker\<close>

text \<open>One entry of \<open>session_history\<close>: the dict appended by \<open>add_usage\<close>.\<close>

record usage_item =
  timestamp :: string
  operation :: string
  tokens :: int
  cost :: real

record TokenUsageTracker =
  total_tokens :: int
  total_cost :: pyfloat
  session_history :: "usage_item list"

text \<open>\<open>TokenUsageTracker.__init__\<close>\<close>

definition TokenUsageTracker_init :: TokenUsageTracker where
  "TokenUsageTracker_init =
     \<lparr>total_tokens = 0, total_cost = Float 0, session_history = []\<rparr>"

text \<open>
  \<open>add_usage\<close>. The time stamp is \<open>datetime.now().strftime("%H:%M:%S")\<close>; the clock is
  outside the program, so the formatted time is the first argument.
\<close>

definition add_usage ::
  "string \<Rightarrow> TokenUsageTracker \<Rightarrow> int \<Rightarrow> real \<Rightarrow> string \<Rightarrow> TokenUsageTracker" where
  "add_usage now self tokens_used cst op =
     self\<lparr>total_tokens := total_tokens self + tokens_used,
          total_cost := Fadd (total_cost self) (Float cst),
          session_history := session_history self @
            [\<lparr>timestamp = now, operation = op, tokens = tokens_used, cost = cst\<rparr>]\<rparr>"

text \<open>The dict returned by \<open>get_summary\<close>.\<close>

record usage_summary =
  summary_total_tokens :: int
  summary_total_cost :: pyfloat
  operations :: nat
  history :: "usage_item list"

definition get_summary :: "TokenUsageTracker \<Rightarrow> usage_summary" where
  "get_summary self =
     \<lparr>summary_total_tokens = total_tokens self,
      summary_total_cost = total_cost self,
      operations = length (session_history self),
      history = session_history self\<rparr>"

text \<open>
  \<open>format_summary\<close> renders one line per element of \<open>summary['history'][-5:]\<close> and joins
  the lines in that order. The rendering of the numbers (\<open>:,\<close> and \<open>:.4f\<close>) is left
  symbolic: the view is the totals and the list of items that are rendered.
\<close>

record summary_view =
  shown_total_tokens :: int
  shown_total_cost :: pyfloat
  shown_operations :: nat
  recent_operations :: "usage_item list"

definition format_summary :: "TokenUsageTracker \<Rightarrow> summary_view" where
  "format_summary self =
     (let summary = get_summary self
      in \<lparr>shown_total_tokens = summary_total_tokens summary,
          shown_total_cost = summary_total_cost summary,
          shown_operations = operations summary,
          recent_operations = py_slice_from (- 5) (history summary)\<rparr>)"

section \<open>Cost estimation\<close>

text \<open>
  \<open>ProjectManagementSystem._estimate_tokens_and_cost\<close>: \<open>len(text) // 4\<close> tokens, at
  9 dollars per million tokens.
\<close>

definition estimate_tokens_and_cost :: "string \<Rightarrow> int \<times> real" where
  "estimate_tokens_and_cost text =
     (let estimated_tokens = int (length text) div 4;
          estimated_cost = (real_of_int estimated_tokens / 1000000) * 9
      in (estimated_tokens, estimated_cost))"

section \<open>Agents and tasks\<close>

text \<open>
  The arguments of \<open>Agent(...)\<close>. The language model handle \<open>llm\<close> is the same global
  object in all four agents and is left out.
\<close>

record Agent =
  role :: string
  goal :: string
  backstory :: string
  verbose :: bool
  allow_delegation :: bool

definition project_planner :: Agent where
  "project_planner =
     \<lparr>role = ''Project Planner'',
      goal = ''Create comprehensive project plans with clear objectives and milestones'',
      backstory =
        ''You are an experienced project planner with 10+ years '' @ [CHR 0x0A] @
        ''            of experience in breaking down complex projects into manageable tasks. '' @ [CHR 0x0A] @
        ''            You excel at identifying dependencies and creating realistic timelines.'',
      verbose = True,
      allow_delegation = False\<rparr>"

definition task_allocator :: Agent where
  "task_allocator =
     \<lparr>role = ''Task Allocator'',
      goal = ''Efficiently allocate tasks based on team capabilities and availability'',
      backstory =
        ''You are a resource management specialist who understands '' @ [CHR 0x0A] @
        ''            team dynamics and can match tasks with the right team members based '' @ [CHR 0x0A] @
        ''            on their skills and workload.'',
      verbose = True,
      allow_delegation = False\<rparr>"

definition progress_monitor :: Agent where
  "progress_monitor =
     \<lparr>role = ''Progress Monitor'',
      goal = ''Track project progress and identify potential risks or delays'',
      backstory =
        ''You are a detail-oriented project monitor who tracks '' @ [CHR 0x0A] @
        ''            progress, identifies bottlenecks, and suggests corrective actions '' @ [CHR 0x0A] @
        ''            to keep projects on schedule.'',
      verbose = True,
      allow_delegation = False\<rparr>"

definition quality_reviewer :: Agent where
  "quality_reviewer =
     \<lparr>role = ''Quality Reviewer'',
      goal = ''Ensure project deliverables meet quality standards'',
      backstory =
        ''You are a quality assurance expert who reviews project '' @ [CHR 0x0A] @
        ''            outputs and ensures they meet the defined standards and requirements.'',
      verbose = True,
      allow_delegation = False\<rparr>"

text \<open>The arguments of \<open>Task(...)\<close>. The description is an f-string, rendered when the task is built.\<close>

record Task =
  description :: string
  agent :: Agent
  expected_output :: string

definition create_project_plan :: "Agent \<Rightarrow> string \<Rightarrow> Task" where
  "create_project_plan a project_description =
     \<lparr>description =
        [CHR 0x0A] @
        ''            Create a detailed project plan for: '' @ project_description @ [CHR 0x0A] @
        ''            '' @ [CHR 0x0A] @
        ''            Your plan should include:'' @ [CHR 0x0A] @
        ''            1. Project objectives and scope'' @ [CHR 0x0A] @
        ''            2. Key milestones and deliverables'' @ [CHR 0x0A] @
        ''            3. Timeline with phases'' @ [CHR 0x0A] @
        ''            4. Required resources'' @ [CHR 0x0A] @
        ''            5. Success criteria'' @ [CHR 0x0A] @
        ''            6. Potential risks and mitigation strategies'' @ [CHR 0x0A] @
        ''            '',
      agent = a,
      expected_output = ''A comprehensive project plan with all required elements''\<rparr>"

definition allocate_tasks :: "Agent \<Rightarrow> string \<Rightarrow> string \<Rightarrow> Task" where
  "allocate_tasks a project_plan team_info =
     \<lparr>description =
        [CHR 0x0A] @
        ''            Based on the project plan and team information, allocate tasks:'' @ [CHR 0x0A] @
        ''            '' @ [CHR 0x0A] @
        ''            Project Plan: '' @ project_plan @ [CHR 0x0A] @
        ''            Team Information: '' @ team_info @ [CHR 0x0A] @
        ''            '' @ [CHR 0x0A] @
        ''            Create task assignments that consider:'' @ [CHR 0x0A] @
        ''            1. Team member skills and expertise'' @ [CHR 0x0A] @
        ''            2. Current workload and availability'' @ [CHR 0x0A] @
        ''            3. Task dependencies'' @ [CHR 0x0A] @
        ''            4. Priority levels'' @ [CHR 0x0A] @
        ''            5. Estimated effort for each task'' @ [CHR 0x0A] @
        ''            '',
      agent = a,
      expected_output = ''Detailed task allocation with assignments and timelines''\<rparr>"

definition monitor_progress :: "Agent \<Rightarrow> string \<Rightarrow> Task" where
  "monitor_progress a project_status =
     \<lparr>description =
        [CHR 0x0A] @
        ''            Analyze the current project status and provide insights:'' @ [CHR 0x0A] @
        ''            '' @ [CHR 0x0A] @
        ''            Current Status: '' @ project_status @ [CHR 0x0A] @
        ''            '' @ [CHR 0x0A] @
        ''            Your analysis should include:'' @ [CHR 0x0A] @
        ''            1. Overall progress assessment'' @ [CHR 0x0A] @
        ''            2. Completed vs pending tasks'' @ [CHR 0x0A] @
        ''            3. Identified bottlenecks or delays'' @ [CHR 0x0A] @
        ''            4. Risk assessment'' @ [CHR 0x0A] @
        ''            5. Recommended actions to stay on track'' @ [CHR 0x0A] @
        ''            '',
      agent = a,
      expected_output = ''Progress report with analysis and recommendations''\<rparr>"

definition review_quality :: "Agent \<Rightarrow> string \<Rightarrow> Task" where
  "review_quality a deliverables =
     \<lparr>description =
        [CHR 0x0A] @
        ''            Review the project deliverables for quality:'' @ [CHR 0x0A] @
        ''            '' @ [CHR 0x0A] @
        ''            Deliverables: '' @ deliverables @ [CHR 0x0A] @
        ''            '' @ [CHR 0x0A] @
        ''            Your review should assess:'' @ [CHR 0x0A] @
        ''            1. Completeness of deliverables'' @ [CHR 0x0A] @
        ''            2. Compliance with requirements'' @ [CHR 0x0A] @
        ''            3. Quality standards met'' @ [CHR 0x0A] @
        ''            4. Areas for improvement'' @ [CHR 0x0A] @
        ''            5. Final recommendations'' @ [CHR 0x0A] @
        ''            '',
      agent = a,
      expected_output = ''Quality review report with detailed assessment''\<rparr>"

section \<open>The crew and the generation provider\<close>

text \<open>
  The arguments of \<open>Crew(...)\<close>. Both crews of the program are built with
  \<open>process=Process.sequential\<close> and \<open>verbose=True\<close>.
\<close>

record Crew =
  agents :: "Agent list"
  tasks :: "Task list"

text \<open>
  One invocation of the generation provider: the role (identity, objective, framing), the
  rendered instruction text, the description of the expected output, and the outputs of
  the stages that ran before it in the same run. The provider answers with a text or
  fails; the failure carries the text of its cause.
\<close>

record provider_request =
  req_agent :: Agent
  req_instructions :: string
  req_expected_output :: string
  req_context :: "string list"

datatype error = ProviderError string

type_synonym provider = "provider_request \<Rightarrow> error + string"

text \<open>
  Modelled from the spec: \<open>Crew.kickoff\<close> belongs to the crewai library and is not part
  of the source. Its stage loop is the algorithm of the pipeline runner: the stages run
  strictly in order, each with one invocation of the provider; on success the output is
  captured and added to the context; on failure the whole run is aborted and the failure
  goes to the caller. The first component of the result is the log of the invocations
  made, in order.
\<close>

fun run_stages ::
  "provider \<Rightarrow> string list \<Rightarrow> Task list \<Rightarrow> provider_request list \<times> (error + string list)" where
  "run_stages p ctx [] = ([], Inr ctx)"
| "run_stages p ctx (t # ts) =
     (let req = \<lparr>req_agent = agent t, req_instructions = description t,
                 req_expected_output = expected_output t, req_context = ctx\<rparr>
      in case p req of
           Inl e \<Rightarrow> ([req], Inl e)
         | Inr out \<Rightarrow>
             (case run_stages p (ctx @ [out]) ts of
                (calls, res) \<Rightarrow> (req # calls, res)))"

text \<open>
  Modelled from the spec: the value that \<open>kickoff\<close> hands back to the entry point, whose
  text \<open>str(result)\<close> is stored as the plan or the analysis. It is taken to be the output
  of the last stage (the empty text for a crew without tasks).
\<close>

definition kickoff :: "provider \<Rightarrow> Crew \<Rightarrow> provider_request list \<times> (error + string)" where
  "kickoff p crew =
     (case run_stages p [] (tasks crew) of
        (calls, Inl e) \<Rightarrow> (calls, Inl e)
      | (calls, Inr outs) \<Rightarrow> (calls, Inr (if outs = [] then [] else last outs)))"

section \<open>The project management system\<close>

text \<open>
  The mutable part of \<open>ProjectManagementSystem\<close>: the tracker and the \<open>report_data\<close>
  dict. The agent and task factories and the report generator hold no state.
\<close>

record ProjectManagementSystem =
  token_tracker :: TokenUsageTracker
  report_data :: "string \<rightharpoonup> string"

definition ProjectManagementSystem_init :: ProjectManagementSystem where
  "ProjectManagementSystem_init =
     \<lparr>token_tracker = TokenUsageTracker_init, report_data = Map.empty\<rparr>"

text \<open>
  The two entry points. Each returns the system after the call, the log of provider
  invocations, and either the result or the exception that left the method. An
  exception raised by \<open>crew.kickoff()\<close> is not caught in the method.
\<close>

definition run_project_planning ::
  "provider \<Rightarrow> string \<Rightarrow> ProjectManagementSystem \<Rightarrow> string \<Rightarrow> string
   \<Rightarrow> ProjectManagementSystem \<times> provider_request list \<times> (error + string)" where
  "run_project_planning p now self project_description team_info =
     (let planner = project_planner;
          allocator = task_allocator;
          monitor = progress_monitor;
          planning_task = create_project_plan planner project_description;
          allocation_task = allocate_tasks allocator project_description team_info;
          crew = \<lparr>agents = [planner, allocator, monitor],
                  tasks = [planning_task, allocation_task]\<rparr>;
          input_text = project_description @ '' '' @ team_info
      in case kickoff p crew of
           (calls, Inl e) \<Rightarrow> (self, calls, Inl e)
         | (calls, Inr result) \<Rightarrow>
             (let data = report_data self ++
                    [''project_description'' \<mapsto> project_description,
                     ''team_info'' \<mapsto> team_info,
                     ''project_plan'' \<mapsto> result];
                  result_text = result;
                  (tokens_used, cst) = estimate_tokens_and_cost (input_text @ result_text)
              in (self\<lparr>report_data := data,
                        token_tracker :=
                          add_usage now (token_tracker self) tokens_used cst ''Project Planning''\<rparr>,
                  calls, Inr result)))"

definition analyze_project_status ::
  "provider \<Rightarrow> string \<Rightarrow> ProjectManagementSystem \<Rightarrow> string \<Rightarrow> string
   \<Rightarrow> ProjectManagementSystem \<times> provider_request list \<times> (error + string)" where
  "analyze_project_status p now self project_status deliverables =
     (let monitor = progress_monitor;
          reviewer = quality_reviewer;
          monitoring_task = monitor_progress monitor project_status;
          review_task = review_quality reviewer deliverables;
          crew = \<lparr>agents = [monitor, reviewer],
                  tasks = [monitoring_task, review_task]\<rparr>;
          input_text = project_status @ '' '' @ deliverables
      in case kickoff p crew of
           (calls, Inl e) \<Rightarrow> (self, calls, Inl e)
         | (calls, Inr result) \<Rightarrow>
             (let data = report_data self ++
                    [''project_status'' \<mapsto> project_status,
                     ''deliverables'' \<mapsto> deliverables,
                     ''status_analysis'' \<mapsto> result];
                  result_text = result;
                  (tokens_used, cst) = estimate_tokens_and_cost (input_text @ result_text)
              in (self\<lparr>report_data := data,
                        token_tracker :=
                          add_usage now (token_tracker self) tokens_used cst ''Status Analysis''\<rparr>,
                  calls, Inr result)))"

section \<open>Report generation\<close>

text \<open>
  \<open>generate_project_report\<close> builds the list \<open>story\<close> of flowables and hands it to the
  document builder; the layout of the page is not modelled, the story is the result.
  A table cell that the source renders from a number keeps the number:
  \<open>FmtCommas n\<close> is \<open>f"{n:,}"\<close>, \<open>FmtDollars x\<close> is \<open>f"${x:.4f}"\<close>, \<open>FmtInt n\<close> is \<open>str(n)\<close>.
  The pictographs of the headings are written as their UTF-8 bytes.
\<close>

datatype style = title_style | heading_style | normal_style | footer_style

datatype cell = Text string | FmtCommas int | FmtDollars pyfloat | FmtInt int

datatype flowable =
    Paragraph string style
  | Spacer nat nat
  | Table "cell list list"

text \<open>
  The time of generation is \<open>datetime.now().strftime("%B %d, %Y at %I:%M %p")\<close>; the clock
  is outside the program, so the formatted date is the first argument.
\<close>

definition generate_project_report ::
  "string \<Rightarrow> (string \<rightharpoonup> string) \<Rightarrow> usage_summary \<Rightarrow> flowable list" where
  "generate_project_report report_date project_data token_usage =
     [Paragraph ([CHR 0xF0, CHR 0x9F, CHR 0x9A, CHR 0x80] @ '' Project Management Report'')
        title_style,
      Spacer 1 20,
      Paragraph (''<b>Generated:</b> '' @ report_date) normal_style,
      Spacer 1 20]
     @ (case project_data ''project_description'' of
          None \<Rightarrow> []
        | Some d \<Rightarrow>
            [Paragraph ([CHR 0xF0, CHR 0x9F, CHR 0x93, CHR 0x8B] @ '' Project Overview'')
               heading_style,
             Paragraph (''<b>Description:</b> '' @ d) normal_style])
     @ (case project_data ''team_info'' of
          None \<Rightarrow> []
        | Some t \<Rightarrow>
            [Paragraph (''<b>Team:</b> '' @ t) normal_style,
             Spacer 1 15])
     @ (case project_data ''project_plan'' of
          None \<Rightarrow> []
        | Some pl \<Rightarrow>
            [Paragraph ([CHR 0xF0, CHR 0x9F, CHR 0x8E, CHR 0xAF] @ '' Project Plan'')
               heading_style,
             Paragraph (replace_newline ''<br/>'' pl) normal_style,
             Spacer 1 15])
     @ (case project_data ''status_analysis'' of
          None \<Rightarrow> []
        | Some an \<Rightarrow>
            [Paragraph ([CHR 0xF0, CHR 0x9F, CHR 0x93, CHR 0x8A] @ '' Status Analysis'')
               heading_style,
             Paragraph (replace_newline ''<br/>'' an) normal_style,
             Spacer 1 15])
     @ [Paragraph ([CHR 0xF0, CHR 0x9F, CHR 0x92, CHR 0xB0] @ '' Token Usage Summary'')
          heading_style,
        Table
          [[Text ''Metric'', Text ''Value''],
           [Text ''Total Tokens Used'', FmtCommas (summary_total_tokens token_usage)],
           [Text ''Estimated Cost'', FmtDollars (summary_total_cost token_usage)],
           [Text ''Operations Performed'', FmtInt (int (operations token_usage))]],
        Spacer 1 15]
     @ (if history token_usage \<noteq> [] then
          [Paragraph ([CHR 0xF0, CHR 0x9F, CHR 0x95, CHR 0x92] @ '' Operation History'')
             heading_style,
           Table
             ([Text ''Time'', Text ''Operation'', Text ''Tokens'', Text ''Cost'']
              # map (\<lambda>item. [Text (timestamp item), Text (operation item),
                              FmtInt (tokens item), FmtDollars (Float (cost item))])
                    (py_slice_from (- 10) (history token_usage)))]
        else [])
     @ [Spacer 1 30,
        Paragraph ''Generated by AI-Powered Project Management System'' footer_style]"

text \<open>\<open>ProjectManagementSystem.generate_pdf_report\<close>\<close>

definition generate_pdf_report :: "string \<Rightarrow> ProjectManagementSystem \<Rightarrow> flowable list" where
  "generate_pdf_report report_date self =
     generate_project_report report_date (report_data self) (get_summary (token_tracker self))"

section \<open>The front-end handlers\<close>

text \<open>
  The two button branches of \<open>run_streamlit_app\<close>. A Python string is true when it is
  not empty. What the page shows afterwards is kept as a list of messages; an exception
  of the entry point is caught here and shown as an error message.
\<close>

datatype ui_message =
    ResultArea string
  | UsageArea summary_view
  | SuccessMessage
  | ErrorMessage error

definition plan_button_handler ::
  "provider \<Rightarrow> string \<Rightarrow> ProjectManagementSystem \<Rightarrow> bool \<Rightarrow> string \<Rightarrow> string
   \<Rightarrow> ProjectManagementSystem \<times> provider_request list \<times> ui_message list" where
  "plan_button_handler p now system plan_button project_desc team_info =
     (if plan_button \<and> project_desc \<noteq> [] \<and> team_info \<noteq> [] then
        (case run_project_planning p now system project_desc team_info of
           (system', calls, Inr result) \<Rightarrow>
             (system', calls,
              [ResultArea result, UsageArea (format_summary (token_tracker system')),
               SuccessMessage])
         | (system', calls, Inl e) \<Rightarrow> (system', calls, [ErrorMessage e]))
      else (system, [], []))"

definition analyze_button_handler ::
  "provider \<Rightarrow> string \<Rightarrow> ProjectManagementSystem \<Rightarrow> bool \<Rightarrow> string \<Rightarrow> string
   \<Rightarrow> ProjectManagementSystem \<times> provider_request list \<times> ui_message list" where
  "analyze_button_handler p now system analyze_button status_info deliverables_info =
     (if analyze_button \<and> status_info \<noteq> [] \<and> deliverables_info \<noteq> [] then
        (case analyze_project_status p now system status_info deliverables_info of
           (system', calls, Inr result) \<Rightarrow>
             (system', calls,
              [ResultArea result, UsageArea (format_summary (token_tracker system')),
               SuccessMessage])
         | (system', calls, Inl e) \<Rightarrow> (system', calls, [ErrorMessage e]))
      else (system, [], []))"

section \<open>Notions used in the statements\<close>

text \<open>
  A sequence of \<open>add_usage\<close> calls, each with its time stamp, token count, cost and
  label, applied from left to right.
\<close>

definition add_usages ::
  "TokenUsageTracker \<Rightarrow> (string \<times> int \<times> real \<times> string) list \<Rightarrow> TokenUsageTracker" where
  "add_usages self calls = foldl (\<lambda>t (now, n, c, op). add_usage now t n c op) self calls"

text \<open>
  The running total of the costs is the float sum of the recorded costs, taken in the
  order of the records from \<open>0.0\<close>.
\<close>

definition cost_total_inv :: "TokenUsageTracker \<Rightarrow> bool" where
  "cost_total_inv t \<longleftrightarrow>
     total_cost t = foldl Fadd (Float 0) (map Float (map cost (session_history t)))"

text \<open>
  A stub provider for the scenarios: it fails for the role named \<open>failing\<close> and answers
  every other role with a short text that names the role.
\<close>

definition stub_provider :: "string \<Rightarrow> provider" where
  "stub_provider failing req =
     (if role (req_agent req) = failing then Inl (ProviderError ''provider unavailable'')
      else Inr (role (req_agent req) @ '': done''))"

text \<open>
  How a report shows one section of the report state: the flowables that stand for the
  section with key \<open>k\<close> and text \<open>v\<close>. Only four keys have a rendering.
\<close>

definition section_flowables :: "string \<Rightarrow> string \<Rightarrow> flowable list" where
  "section_flowables k v =
     (if k = ''project_description'' then
        [Paragraph ([CHR 0xF0, CHR 0x9F, CHR 0x93, CHR 0x8B] @ '' Project Overview'')
           heading_style,
         Paragraph (''<b>Description:</b> '' @ v) normal_style]
      else if k = ''team_info'' then
        [Paragraph (''<b>Team:</b> '' @ v) normal_style, Spacer 1 15]
      else if k = ''project_plan'' then
        [Paragraph ([CHR 0xF0, CHR 0x9F, CHR 0x8E, CHR 0xAF] @ '' Project Plan'')
           heading_style,
         Paragraph (replace_newline ''<br/>'' v) normal_style,
         Spacer 1 15]
      else if k = ''status_analysis'' then
        [Paragraph ([CHR 0xF0, CHR 0x9F, CHR 0x93, CHR 0x8A] @ '' Status Analysis'')
           heading_style,
         Paragraph (replace_newline ''<br/>'' v) normal_style,
         Spacer 1 15]
      else [])"

text \<open>
  The sections of a snapshot: for each of the four rendered keys, in this order, the
  flowables of the section when the key is populated and nothing when it is absent.
\<close>

definition snapshot_sections :: "(string \<rightharpoonup> string) \<Rightarrow> flowable list" where
  "snapshot_sections project_data =
     concat (map (\<lambda>k. case project_data k of None \<Rightarrow> [] | Some v \<Rightarrow> section_flowables k v)
               [''project_description'', ''team_info'', ''project_plan'', ''status_analysis''])"

text \<open>The texts that a story carries, and whether one of them contains a given text.\<close>

fun cell_texts :: "cell \<Rightarrow> string list" where
  "cell_texts (Text t) = [t]"
| "cell_texts (FmtCommas n) = []"
| "cell_texts (FmtDollars x) = []"
| "cell_texts (FmtInt n) = []"

fun flowable_texts :: "flowable \<Rightarrow> string list" where
  "flowable_texts (Paragraph t st) = [t]"
| "flowable_texts (Spacer w h) = []"
| "flowable_texts (Table rows) = concat (map cell_texts (concat rows))"

definition mentions :: "string \<Rightarrow> flowable list \<Rightarrow> bool" where
  "mentions v story = list_ex (sublist v) (concat (map flowable_texts story))"

text \<open>
  The requests that the two pipelines send: the request of a stage is built from its
  task and from the outputs captured before it. The second request of a run carries the
  output \<open>o1\<close> of the first stage in its context.
\<close>

definition planner_request :: "string \<Rightarrow> provider_request" where
  "planner_request pd =
     \<lparr>req_agent = project_planner,
      req_instructions = description (create_project_plan project_planner pd),
      req_expected_output = expected_output (create_project_plan project_planner pd),
      req_context = []\<rparr>"

definition allocator_request :: "string \<Rightarrow> string \<Rightarrow> string \<Rightarrow> provider_request" where
  "allocator_request pd ti o1 =
     \<lparr>req_agent = task_allocator,
      req_instructions = description (allocate_tasks task_allocator pd ti),
      req_expected_output = expected_output (allocate_tasks task_allocator pd ti),
      req_context = [o1]\<rparr>"

definition monitor_request :: "string \<Rightarrow> provider_request" where
  "monitor_request ps =
     \<lparr>req_agent = progress_monitor,
      req_instructions = description (monitor_progress progress_monitor ps),
      req_expected_output = expected_output (monitor_progress progress_monitor ps),
      req_context = []\<rparr>"

definition reviewer_request :: "string \<Rightarrow> string \<Rightarrow> provider_request" where
  "reviewer_request dl o1 =
     \<lparr>req_agent = quality_reviewer,
      req_instructions = description (review_quality quality_reviewer dl),
      req_expected_output = expected_output (review_quality quality_reviewer dl),
      req_context = [o1]\<rparr>"

text \<open>
  What an entry point does after \<open>kickoff\<close> has returned: \<open>report_data.update(upd)\<close>, then
  one \<open>add_usage\<close> with the estimate for \<open>text\<close>.
\<close>

definition commit_run ::
  "string \<Rightarrow> ProjectManagementSystem \<Rightarrow> (string \<rightharpoonup> string) \<Rightarrow> string \<Rightarrow> string
   \<Rightarrow> ProjectManagementSystem" where
  "commit_run now s upd text label =
     s\<lparr>report_data := report_data s ++ upd,
       token_tracker :=
         add_usage now (token_tracker s) (fst (estimate_tokens_and_cost text))
           (snd (estimate_tokens_and_cost text)) label\<rparr>"

section \<open>Cost estimation: the unit count and the cost\<close>

text \<open>
  Claim C1. For every text, of any length \<open>n\<close>, the estimator returns
  \<open>floor(n / 4)\<close> units, which is \<open>n // 4\<close>, and the cost \<open>units / 1000000 * 9\<close>; a text
  of every length exists; the empty text gives \<open>(0, 0)\<close>. The function is total and
  its result depends on the length of the text only.
\<close>

theorem estimate_tokens_and_cost_spec:
  "fst (estimate_tokens_and_cost text) = \<lfloor>real (length text) / 4\<rfloor>
   \<and> fst (estimate_tokens_and_cost text) = int (length text) div 4
   \<and> snd (estimate_tokens_and_cost text)
       = real_of_int (fst (estimate_tokens_and_cost text)) / 1000000 * 9
   \<and> estimate_tokens_and_cost (replicate n c)
       = (int n div 4, real_of_int (int n div 4) / 1000000 * 9)
   \<and> estimate_tokens_and_cost [] = (0, 0)"
proof -
  have fl: "\<lfloor>real m / 4\<rfloor> = int m div 4" for m :: nat
    by (simp add: floor_divide_of_nat_eq [of m 4, simplified] zdiv_int)
  show ?thesis
    by (simp add: estimate_tokens_and_cost_def Let_def fl)
qed

theorem estimate_tokens_and_cost_spec_witness:
  "fst (estimate_tokens_and_cost ''Build a to-do app'') = 4
   \<and> snd (estimate_tokens_and_cost ''Build a to-do app'') = 36 / 1000000"
  using estimate_tokens_and_cost_spec [of "''Build a to-do app''" 0 "CHR ''x''"]
  by simp

section \<open>The usage ledger\<close>


lemma add_usage_history:
  "session_history (add_usage now t n c op) =
     session_history t @ [\<lparr>timestamp = now, operation = op, tokens = n, cost = c\<rparr>]"
  by (simp add: add_usage_def)

lemma add_usage_totals:
  "total_tokens (add_usage now t n c op) = total_tokens t + n"
  "total_cost (add_usage now t n c op) = Fadd (total_cost t) (Float c)"
  by (simp_all add: add_usage_def)

lemma add_usages_Nil: "add_usages t [] = t"
  by (simp add: add_usages_def)

lemma add_usages_Cons:
  "add_usages t ((now, n, c, op) # calls) = add_usages (add_usage now t n c op) calls"
  by (simp add: add_usages_def)

lemma add_usages_history:
  "session_history (add_usages t calls) =
     session_history t @
     map (\<lambda>(now, n, c, op). \<lparr>timestamp = now, operation = op, tokens = n, cost = c\<rparr>) calls"
proof (induction calls arbitrary: t)
  case Nil
  show ?case by (simp add: add_usages_Nil)
next
  case (Cons call calls)
  obtain now n c op where call: "call = (now, n, c, op)"
    by (cases call) auto
  show ?case
    by (simp add: call add_usages_Cons Cons.IH add_usage_history)
qed

lemma add_usages_tokens:
  "total_tokens (add_usages t calls) - sum_list (map tokens (session_history (add_usages t calls)))
     = total_tokens t - sum_list (map tokens (session_history t))"
proof (induction calls arbitrary: t)
  case Nil
  show ?case by (simp add: add_usages_Nil)
next
  case (Cons call calls)
  obtain now n c op where call: "call = (now, n, c, op)"
    by (cases call) auto
  show ?case
    by (simp add: call add_usages_Cons Cons.IH add_usage_history add_usage_totals)
qed

lemma cost_total_inv_init: "cost_total_inv TokenUsageTracker_init"
  by (simp add: cost_total_inv_def TokenUsageTracker_init_def)

lemma cost_total_inv_add_usage:
  "cost_total_inv t \<Longrightarrow> cost_total_inv (add_usage now t n c op)"
  by (simp add: cost_total_inv_def add_usage_history add_usage_totals)

lemma cost_total_inv_add_usages:
  "cost_total_inv t \<Longrightarrow> cost_total_inv (add_usages t calls)"
proof (induction calls arbitrary: t)
  case Nil
  then show ?case by (simp add: add_usages_Nil)
next
  case (Cons call calls)
  obtain now n c op where call: "call = (now, n, c, op)"
    by (cases call) auto
  from Cons.prems have "cost_total_inv (add_usage now t n c op)"
    by (rule cost_total_inv_add_usage)
  then show ?case
    by (simp add: call add_usages_Cons Cons.IH)
qed

lemma float_value_foldl:
  "float_value fadd (foldl Fadd a (map Float cs)) = foldl fadd (float_value fadd a) cs"
  by (induction cs arbitrary: a) simp_all

text \<open>
  Claim C2. After any sequence of \<open>add_usage\<close> calls on a fresh tracker the summary's
  total of tokens is the sum of the tokens of the recorded items, and its total cost is
  the sum of their costs taken in the order of the records with the program's float
  addition, whatever that addition computes; the history is exactly the appended items,
  one per call. An \<open>add_usage\<close> call on any tracker adds the tokens to the total and to
  the sum of the history alike, and adds the cost to the running total by one float
  addition, so it keeps the totals equal to the sums.
\<close>

theorem usage_ledger_totals:
  "summary_total_tokens (get_summary (add_usages TokenUsageTracker_init calls))
     = sum_list (map tokens (history (get_summary (add_usages TokenUsageTracker_init calls))))
   \<and> summary_total_cost (get_summary (add_usages TokenUsageTracker_init calls))
     = foldl Fadd (Float 0)
         (map Float (map cost (history (get_summary (add_usages TokenUsageTracker_init calls)))))
   \<and> float_value fadd (summary_total_cost (get_summary (add_usages TokenUsageTracker_init calls)))
     = foldl fadd 0 (map cost (history (get_summary (add_usages TokenUsageTracker_init calls))))
   \<and> history (get_summary (add_usages TokenUsageTracker_init calls))
     = map (\<lambda>(now, n, c, op). \<lparr>timestamp = now, operation = op, tokens = n, cost = c\<rparr>) calls
   \<and> operations (get_summary (add_usages TokenUsageTracker_init calls)) = length calls
   \<and> total_tokens (add_usage now t n c op)
        - sum_list (map tokens (session_history (add_usage now t n c op)))
     = total_tokens t - sum_list (map tokens (session_history t))
   \<and> total_cost (add_usage now t n c op) = Fadd (total_cost t) (Float c)
   \<and> (float_value fadd (total_cost t) = foldl fadd 0 (map cost (session_history t)) \<longrightarrow>
        float_value fadd (total_cost (add_usage now t n c op))
          = foldl fadd 0 (map cost (session_history (add_usage now t n c op))))"
proof -
  have init: "total_tokens TokenUsageTracker_init = 0"
    "session_history TokenUsageTracker_init = []"
    by (simp_all add: TokenUsageTracker_init_def)
  have tok: "total_tokens (add_usages TokenUsageTracker_init calls)
      = sum_list (map tokens (session_history (add_usages TokenUsageTracker_init calls)))"
    using add_usages_tokens [of TokenUsageTracker_init calls] by (simp add: init)
  have cst: "total_cost (add_usages TokenUsageTracker_init calls)
      = foldl Fadd (Float 0)
          (map Float (map cost (session_history (add_usages TokenUsageTracker_init calls))))"
    using cost_total_inv_add_usages [OF cost_total_inv_init, of calls]
    by (simp add: cost_total_inv_def)
  have val: "float_value fadd (total_cost (add_usages TokenUsageTracker_init calls))
      = foldl fadd 0 (map cost (session_history (add_usages TokenUsageTracker_init calls)))"
    unfolding cst float_value_foldl by simp
  have hist: "session_history (add_usages TokenUsageTracker_init calls)
      = map (\<lambda>(now, n, c, op). \<lparr>timestamp = now, operation = op, tokens = n, cost = c\<rparr>) calls"
    by (simp add: add_usages_history init)
  have summary:
    "summary_total_tokens (get_summary (add_usages TokenUsageTracker_init calls))
       = total_tokens (add_usages TokenUsageTracker_init calls)"
    "summary_total_cost (get_summary (add_usages TokenUsageTracker_init calls))
       = total_cost (add_usages TokenUsageTracker_init calls)"
    "history (get_summary (add_usages TokenUsageTracker_init calls))
       = session_history (add_usages TokenUsageTracker_init calls)"
    "operations (get_summary (add_usages TokenUsageTracker_init calls))
       = length (session_history (add_usages TokenUsageTracker_init calls))"
    by (simp_all add: get_summary_def)
  have len: "length (session_history (add_usages TokenUsageTracker_init calls)) = length calls"
    unfolding hist by simp
  have step_tokens: "total_tokens (add_usage now t n c op)
        - sum_list (map tokens (session_history (add_usage now t n c op)))
     = total_tokens t - sum_list (map tokens (session_history t))"
    by (simp add: add_usage_history add_usage_totals)
  have step_cost: "total_cost (add_usage now t n c op) = Fadd (total_cost t) (Float c)"
    by (simp add: add_usage_totals)
  have step_value: "float_value fadd (total_cost t) = foldl fadd 0 (map cost (session_history t)) \<longrightarrow>
        float_value fadd (total_cost (add_usage now t n c op))
          = foldl fadd 0 (map cost (session_history (add_usage now t n c op)))"
    by (simp add: add_usage_history add_usage_totals)
  show ?thesis
    unfolding summary
    using tok cst val hist len step_tokens step_cost step_value
    by (intro conjI)
qed

theorem usage_ledger_totals_witness:
  "summary_total_tokens (get_summary (add_usages TokenUsageTracker_init
      [(''09:00:00'', 10, 1/4, ''Project Planning''), (''09:05:00'', 32, 1/2, ''Status Analysis'')])) = 42
   \<and> float_value (+) (summary_total_cost (get_summary (add_usages TokenUsageTracker_init
      [(''09:00:00'', 10, 1/4, ''Project Planning''), (''09:05:00'', 32, 1/2, ''Status Analysis'')]))) = 3/4
   \<and> float_value (+) (total_cost (add_usage ''09:10:00'' TokenUsageTracker_init 7 (1/8) ''Status Analysis''))
     = 1/8"
  using usage_ledger_totals [of "[(''09:00:00'', 10, 1/4, ''Project Planning''), (''09:05:00'', 32, 1/2, ''Status Analysis'')]"
      "(+)" "''09:10:00''" TokenUsageTracker_init 7 "1/8" "''Status Analysis''"]
  by (simp add: TokenUsageTracker_init_def)

lemma py_slice_from_neg:
  "0 < k \<Longrightarrow> py_slice_from (- int k) xs = drop (length xs - k) xs"
  by (auto simp: py_slice_from_def Let_def max_def nat_diff_distrib'
           intro: arg_cong [where f = "\<lambda>n. drop n xs"])

lemma py_slice_from_5: "py_slice_from (- 5) xs = drop (length xs - 5) xs"
  using py_slice_from_neg [of 5 xs] by simp

lemma py_slice_from_10: "py_slice_from (- 10) xs = drop (length xs - 10) xs"
  using py_slice_from_neg [of 10 xs] by simp

text \<open>
  Claim C3. The inline summary shows the last 5 items of the history, in the order of
  insertion, when there are at least 5, and the whole history when there are fewer; the
  history table of the exported report shows the last 10 in the same way; \<open>add_usage\<close>
  keeps every earlier item where it was and unchanged.
\<close>

theorem recent_records_view:
  "(5 \<le> length (session_history t) \<longrightarrow>
      recent_operations (format_summary t)
        = drop (length (session_history t) - 5) (session_history t)
      \<and> length (recent_operations (format_summary t)) = 5)
   \<and> (length (session_history t) < 5 \<longrightarrow>
      recent_operations (format_summary t) = session_history t)
   \<and> (session_history t \<noteq> [] \<longrightarrow>
      Table ([Text ''Time'', Text ''Operation'', Text ''Tokens'', Text ''Cost'']
             # map (\<lambda>item. [Text (timestamp item), Text (operation item),
                             FmtInt (tokens item), FmtDollars (Float (cost item))])
                   (if 10 \<le> length (session_history t)
                    then drop (length (session_history t) - 10) (session_history t)
                    else session_history t))
        \<in> set (generate_project_report report_date project_data (get_summary t)))
   \<and> session_history (add_usage now t n c op)
        = session_history t @ [\<lparr>timestamp = now, operation = op, tokens = n, cost = c\<rparr>]"
  by (simp add: format_summary_def get_summary_def Let_def py_slice_from_5 py_slice_from_10
        generate_project_report_def add_usage_history)


theorem recent_records_view_witness:
  "recent_operations (format_summary (add_usages TokenUsageTracker_init
      [(''09:01'', 1, 0, ''a''), (''09:02'', 2, 0, ''b''), (''09:03'', 3, 0, ''c''),
       (''09:04'', 4, 0, ''d''), (''09:05'', 5, 0, ''e''), (''09:06'', 6, 0, ''f'')]))
     = [\<lparr>timestamp = ''09:02'', operation = ''b'', tokens = 2, cost = 0\<rparr>,
        \<lparr>timestamp = ''09:03'', operation = ''c'', tokens = 3, cost = 0\<rparr>,
        \<lparr>timestamp = ''09:04'', operation = ''d'', tokens = 4, cost = 0\<rparr>,
        \<lparr>timestamp = ''09:05'', operation = ''e'', tokens = 5, cost = 0\<rparr>,
        \<lparr>timestamp = ''09:06'', operation = ''f'', tokens = 6, cost = 0\<rparr>]
   \<and> recent_operations (format_summary (add_usages TokenUsageTracker_init
      [(''09:01'', 1, 0, ''a''), (''09:02'', 2, 0, ''b'')]))
     = [\<lparr>timestamp = ''09:01'', operation = ''a'', tokens = 1, cost = 0\<rparr>,
        \<lparr>timestamp = ''09:02'', operation = ''b'', tokens = 2, cost = 0\<rparr>]"
proof -
  have init: "session_history TokenUsageTracker_init = []"
    by (simp add: TokenUsageTracker_init_def)
  show ?thesis
    using recent_records_view [of "add_usages TokenUsageTracker_init
      [(''09:01'', 1, 0, ''a''), (''09:02'', 2, 0, ''b''), (''09:03'', 3, 0, ''c''),
       (''09:04'', 4, 0, ''d''), (''09:05'', 5, 0, ''e''), (''09:06'', 6, 0, ''f'')]"]
      recent_records_view [of "add_usages TokenUsageTracker_init
      [(''09:01'', 1, 0, ''a''), (''09:02'', 2, 0, ''b'')]"]
    by (simp add: add_usages_history init)
qed

section \<open>Runs of the two pipelines\<close>


lemma task_agent [simp]:
  "agent (create_project_plan a x) = a"
  "agent (allocate_tasks a y z) = a"
  "agent (monitor_progress a x) = a"
  "agent (review_quality a x) = a"
  by (simp_all add: create_project_plan_def allocate_tasks_def monitor_progress_def
        review_quality_def)

lemma agent_roles [simp]:
  "role project_planner = ''Project Planner''"
  "role task_allocator = ''Task Allocator''"
  "role progress_monitor = ''Progress Monitor''"
  "role quality_reviewer = ''Quality Reviewer''"
  by (simp_all add: project_planner_def task_allocator_def progress_monitor_def
        quality_reviewer_def)

lemma kickoff_two:
  "kickoff p \<lparr>agents = ags, tasks = [t1, t2]\<rparr> =
     (let r1 = \<lparr>req_agent = agent t1, req_instructions = description t1,
                req_expected_output = expected_output t1, req_context = []\<rparr>
      in case p r1 of
           Inl e \<Rightarrow> ([r1], Inl e)
         | Inr o1 \<Rightarrow>
             (let r2 = \<lparr>req_agent = agent t2, req_instructions = description t2,
                        req_expected_output = expected_output t2, req_context = [o1]\<rparr>
              in case p r2 of
                   Inl e \<Rightarrow> ([r1, r2], Inl e)
                 | Inr o2 \<Rightarrow> ([r1, r2], Inr o2)))"
  by (simp add: kickoff_def Let_def split: sum.splits)

lemma run_project_planning_unfold:
  "run_project_planning p now s pd ti =
     (case p (planner_request pd) of
        Inl e \<Rightarrow> (s, [planner_request pd], Inl e)
      | Inr o1 \<Rightarrow>
          (case p (allocator_request pd ti o1) of
             Inl e \<Rightarrow> (s, [planner_request pd, allocator_request pd ti o1], Inl e)
           | Inr o2 \<Rightarrow>
               (commit_run now s
                  [''project_description'' \<mapsto> pd, ''team_info'' \<mapsto> ti,
                   ''project_plan'' \<mapsto> o2]
                  (pd @ '' '' @ ti @ o2) ''Project Planning'',
                [planner_request pd, allocator_request pd ti o1], Inr o2)))"
  by (simp add: run_project_planning_def kickoff_two Let_def planner_request_def
        allocator_request_def commit_run_def split: sum.splits prod.splits)

lemma analyze_project_status_unfold:
  "analyze_project_status p now s ps dl =
     (case p (monitor_request ps) of
        Inl e \<Rightarrow> (s, [monitor_request ps], Inl e)
      | Inr o1 \<Rightarrow>
          (case p (reviewer_request dl o1) of
             Inl e \<Rightarrow> (s, [monitor_request ps, reviewer_request dl o1], Inl e)
           | Inr o2 \<Rightarrow>
               (commit_run now s
                  [''project_status'' \<mapsto> ps, ''deliverables'' \<mapsto> dl,
                   ''status_analysis'' \<mapsto> o2]
                  (ps @ '' '' @ dl @ o2) ''Status Analysis'',
                [monitor_request ps, reviewer_request dl o1], Inr o2)))"
  by (simp add: analyze_project_status_def kickoff_two Let_def monitor_request_def
        reviewer_request_def commit_run_def split: sum.splits prod.splits)

lemma request_agents [simp]:
  "req_agent (planner_request pd) = project_planner"
  "req_agent (allocator_request pd ti o1) = task_allocator"
  "req_agent (monitor_request ps) = progress_monitor"
  "req_agent (reviewer_request dl o1) = quality_reviewer"
  by (simp_all add: planner_request_def allocator_request_def monitor_request_def
        reviewer_request_def)

lemma request_contexts [simp]:
  "req_context (planner_request pd) = []"
  "req_context (allocator_request pd ti o1) = [o1]"
  "req_context (monitor_request ps) = []"
  "req_context (reviewer_request dl o1) = [o1]"
  by (simp_all add: planner_request_def allocator_request_def monitor_request_def
        reviewer_request_def)

lemma request_instructions [simp]:
  "req_instructions (planner_request pd) = description (create_project_plan project_planner pd)"
  "req_instructions (allocator_request pd ti o1)
     = description (allocate_tasks task_allocator pd ti)"
  "req_instructions (monitor_request ps) = description (monitor_progress progress_monitor ps)"
  "req_instructions (reviewer_request dl o1) = description (review_quality quality_reviewer dl)"
  by (simp_all add: planner_request_def allocator_request_def monitor_request_def
        reviewer_request_def)

text \<open>
  Claim C4. In a run of either entry point in which an invocation of the provider fails,
  the system after the run (the report data and the tracker with its history and
  totals) is the system before the run, and the caller receives the failure of the
  provider, which is the failure of the last invocation made.
\<close>

theorem provider_failure_is_atomic:
  "(run_project_planning p now s pd ti = (s', calls, res) \<and> (\<exists>r\<in>set calls. isl (p r))
      \<longrightarrow> s' = s \<and> isl res \<and> res = p (last calls))
   \<and> (analyze_project_status p now s ps dl = (s'', calls', res') \<and> (\<exists>r\<in>set calls'. isl (p r))
      \<longrightarrow> s'' = s \<and> isl res' \<and> res' = p (last calls'))"
proof -
  have planning: "s' = s \<and> isl res \<and> res = p (last calls)"
    if run: "run_project_planning p now s pd ti = (s', calls, res)"
      and fails: "\<exists>r\<in>set calls. isl (p r)"
  proof (cases "p (planner_request pd)")
    case (Inl e)
    from run show ?thesis
      by (auto simp: run_project_planning_unfold Inl)
  next
    case o1: (Inr o1)
    show ?thesis
    proof (cases "p (allocator_request pd ti o1)")
      case (Inl e)
      from run show ?thesis
        by (auto simp: run_project_planning_unfold o1 Inl)
    next
      case (Inr o2)
      from run have "calls = [planner_request pd, allocator_request pd ti o1]"
        by (auto simp: run_project_planning_unfold o1 Inr)
      with fails show ?thesis
        by (auto simp: o1 Inr)
    qed
  qed
  have analysis: "s'' = s \<and> isl res' \<and> res' = p (last calls')"
    if run: "analyze_project_status p now s ps dl = (s'', calls', res')"
      and fails: "\<exists>r\<in>set calls'. isl (p r)"
  proof (cases "p (monitor_request ps)")
    case (Inl e)
    from run show ?thesis
      by (auto simp: analyze_project_status_unfold Inl)
  next
    case o1: (Inr o1)
    show ?thesis
    proof (cases "p (reviewer_request dl o1)")
      case (Inl e)
      from run show ?thesis
        by (auto simp: analyze_project_status_unfold o1 Inl)
    next
      case (Inr o2)
      from run have "calls' = [monitor_request ps, reviewer_request dl o1]"
        by (auto simp: analyze_project_status_unfold o1 Inr)
      with fails show ?thesis
        by (auto simp: o1 Inr)
    qed
  qed
  show ?thesis
    using planning analysis by blast
qed

lemma stub_provider_simps [simp]:
  "stub_provider f (planner_request pd)
     = (if f = ''Project Planner'' then Inl (ProviderError ''provider unavailable'')
        else Inr ''Project Planner: done'')"
  "stub_provider f (allocator_request pd ti o1)
     = (if f = ''Task Allocator'' then Inl (ProviderError ''provider unavailable'')
        else Inr ''Task Allocator: done'')"
  "stub_provider f (monitor_request ps)
     = (if f = ''Progress Monitor'' then Inl (ProviderError ''provider unavailable'')
        else Inr ''Progress Monitor: done'')"
  "stub_provider f (reviewer_request dl o1)
     = (if f = ''Quality Reviewer'' then Inl (ProviderError ''provider unavailable'')
        else Inr ''Quality Reviewer: done'')"
  by (auto simp: stub_provider_def)

theorem provider_failure_is_atomic_witness:
  "fst (run_project_planning (stub_provider ''Task Allocator'') ''09:00:00''
          ProjectManagementSystem_init ''Build a to-do app'' ''2 devs, 1 designer'')
     = ProjectManagementSystem_init
   \<and> snd (snd (run_project_planning (stub_provider ''Task Allocator'') ''09:00:00''
          ProjectManagementSystem_init ''Build a to-do app'' ''2 devs, 1 designer''))
     = Inl (ProviderError ''provider unavailable'')
   \<and> length (fst (snd (run_project_planning (stub_provider ''Task Allocator'') ''09:00:00''
          ProjectManagementSystem_init ''Build a to-do app'' ''2 devs, 1 designer''))) = 2
   \<and> fst (analyze_project_status (stub_provider ''Quality Reviewer'') ''09:00:00''
          ProjectManagementSystem_init ''Week 3: backend 70% complete'' ''API docs'')
     = ProjectManagementSystem_init"
  using provider_failure_is_atomic
    [of "stub_provider ''Task Allocator''" "''09:00:00''" ProjectManagementSystem_init
        "''Build a to-do app''" "''2 devs, 1 designer''"
        ProjectManagementSystem_init
        "[planner_request ''Build a to-do app'',
          allocator_request ''Build a to-do app'' ''2 devs, 1 designer'' ''Project Planner: done'']"
        "Inl (ProviderError ''provider unavailable'')"
        "''Week 3: backend 70% complete''" "''API docs''"]
  by (simp add: run_project_planning_unfold analyze_project_status_unfold)

subsection \<open>Successful runs\<close>

lemma commit_run_simps [simp]:
  "report_data (commit_run now s upd text label) = report_data s ++ upd"
  "token_tracker (commit_run now s upd text label)
     = add_usage now (token_tracker s) (fst (estimate_tokens_and_cost text))
         (snd (estimate_tokens_and_cost text)) label"
  by (simp_all add: commit_run_def)

lemma run_project_planning_success:
  assumes "run_project_planning p now s pd ti = (s', calls, Inr result)"
  shows "\<exists>o1. p (planner_request pd) = Inr o1
            \<and> p (allocator_request pd ti o1) = Inr result
            \<and> calls = [planner_request pd, allocator_request pd ti o1]
            \<and> s' = commit_run now s
                 [''project_description'' \<mapsto> pd, ''team_info'' \<mapsto> ti,
                  ''project_plan'' \<mapsto> result]
                 (pd @ '' '' @ ti @ result) ''Project Planning''"
  using assms
  by (auto simp: run_project_planning_unfold split: sum.splits)

lemma analyze_project_status_success:
  assumes "analyze_project_status p now s ps dl = (s', calls, Inr result)"
  shows "\<exists>o1. p (monitor_request ps) = Inr o1
            \<and> p (reviewer_request dl o1) = Inr result
            \<and> calls = [monitor_request ps, reviewer_request dl o1]
            \<and> s' = commit_run now s
                 [''project_status'' \<mapsto> ps, ''deliverables'' \<mapsto> dl,
                  ''status_analysis'' \<mapsto> result]
                 (ps @ '' '' @ dl @ result) ''Status Analysis''"
  using assms
  by (auto simp: analyze_project_status_unfold split: sum.splits)

lemma estimate_fst: "fst (estimate_tokens_and_cost text) = int (length text) div 4"
  by (simp add: estimate_tokens_and_cost_def Let_def)

lemma estimate_snd:
  "snd (estimate_tokens_and_cost text) = real_of_int (int (length text) div 4) / 1000000 * 9"
  by (simp add: estimate_tokens_and_cost_def Let_def)

lemma stub_planning_run:
  "run_project_planning (stub_provider []) now s pd ti =
     (commit_run now s
        [''project_description'' \<mapsto> pd, ''team_info'' \<mapsto> ti,
         ''project_plan'' \<mapsto> ''Task Allocator: done'']
        (pd @ '' '' @ ti @ ''Task Allocator: done'') ''Project Planning'',
      [planner_request pd, allocator_request pd ti ''Project Planner: done''],
      Inr ''Task Allocator: done'')"
  by (simp add: run_project_planning_unfold)

lemma stub_analysis_run:
  "analyze_project_status (stub_provider []) now s ps dl =
     (commit_run now s
        [''project_status'' \<mapsto> ps, ''deliverables'' \<mapsto> dl,
         ''status_analysis'' \<mapsto> ''Quality Reviewer: done'']
        (ps @ '' '' @ dl @ ''Quality Reviewer: done'') ''Status Analysis'',
      [monitor_request ps, reviewer_request dl ''Progress Monitor: done''],
      Inr ''Quality Reviewer: done'')"
  by (simp add: analyze_project_status_unfold)

lemma init_simps [simp]:
  "session_history (token_tracker ProjectManagementSystem_init) = []"
  "total_tokens (token_tracker ProjectManagementSystem_init) = 0"
  "total_cost (token_tracker ProjectManagementSystem_init) = Float 0"
  "report_data ProjectManagementSystem_init = Map.empty"
  by (simp_all add: ProjectManagementSystem_init_def TokenUsageTracker_init_def)

text \<open>
  Claim C5, as the code has it. A successful run of an entry point, which has two
  stages, appends exactly one record to the ledger: it is labelled with the name of the
  operation (\<open>Project Planning\<close> or \<open>Status Analysis\<close>), not with a role, and its
  token count is \<open>len(input_text + result_text) // 4\<close>, which is not negative.
\<close>

theorem successful_run_appends_one_record:
  "(run_project_planning p now s pd ti = (s', calls, Inr result) \<longrightarrow>
      session_history (token_tracker s')
        = session_history (token_tracker s) @
          [\<lparr>timestamp = now, operation = ''Project Planning'',
            tokens = int (length (pd @ '' '' @ ti @ result)) div 4,
            cost = real_of_int (int (length (pd @ '' '' @ ti @ result)) div 4) / 1000000 * 9\<rparr>]
      \<and> 0 \<le> tokens (last (session_history (token_tracker s')))
      \<and> length calls = 2)
   \<and> (analyze_project_status p now s ps dl = (s'', calls', Inr result') \<longrightarrow>
      session_history (token_tracker s'')
        = session_history (token_tracker s) @
          [\<lparr>timestamp = now, operation = ''Status Analysis'',
            tokens = int (length (ps @ '' '' @ dl @ result')) div 4,
            cost = real_of_int (int (length (ps @ '' '' @ dl @ result')) div 4) / 1000000 * 9\<rparr>]
      \<and> 0 \<le> tokens (last (session_history (token_tracker s'')))
      \<and> length calls' = 2)"
proof -
  have nonneg: "0 \<le> int (length str) div 4" for str :: string
    by simp
  have planning:
    "run_project_planning p now s pd ti = (s', calls, Inr result) \<longrightarrow>
      session_history (token_tracker s')
        = session_history (token_tracker s) @
          [\<lparr>timestamp = now, operation = ''Project Planning'',
            tokens = int (length (pd @ '' '' @ ti @ result)) div 4,
            cost = real_of_int (int (length (pd @ '' '' @ ti @ result)) div 4) / 1000000 * 9\<rparr>]
      \<and> 0 \<le> tokens (last (session_history (token_tracker s')))
      \<and> length calls = 2"
  proof (rule impI)
    assume run: "run_project_planning p now s pd ti = (s', calls, Inr result)"
    from run_project_planning_success [OF run] obtain o1 where
      calls: "calls = [planner_request pd, allocator_request pd ti o1]" and
      s': "s' = commit_run now s
                 [''project_description'' \<mapsto> pd, ''team_info'' \<mapsto> ti,
                  ''project_plan'' \<mapsto> result]
                 (pd @ '' '' @ ti @ result) ''Project Planning''"
      by blast
    have hist: "session_history (token_tracker s')
        = session_history (token_tracker s) @
          [\<lparr>timestamp = now, operation = ''Project Planning'',
            tokens = int (length (pd @ '' '' @ ti @ result)) div 4,
            cost = real_of_int (int (length (pd @ '' '' @ ti @ result)) div 4) / 1000000 * 9\<rparr>]"
      unfolding s' commit_run_simps add_usage_history estimate_fst estimate_snd ..
    have "tokens (last (session_history (token_tracker s')))
        = int (length (pd @ '' '' @ ti @ result)) div 4"
      unfolding hist by simp
    with nonneg [of "pd @ '' '' @ ti @ result"]
    have nn: "0 \<le> tokens (last (session_history (token_tracker s')))"
      by simp
    have len: "length calls = 2"
      unfolding calls by simp
    show "session_history (token_tracker s')
        = session_history (token_tracker s) @
          [\<lparr>timestamp = now, operation = ''Project Planning'',
            tokens = int (length (pd @ '' '' @ ti @ result)) div 4,
            cost = real_of_int (int (length (pd @ '' '' @ ti @ result)) div 4) / 1000000 * 9\<rparr>]
      \<and> 0 \<le> tokens (last (session_history (token_tracker s')))
      \<and> length calls = 2"
      using hist nn len by (intro conjI)
  qed
  have analysis:
    "analyze_project_status p now s ps dl = (s'', calls', Inr result') \<longrightarrow>
      session_history (token_tracker s'')
        = session_history (token_tracker s) @
          [\<lparr>timestamp = now, operation = ''Status Analysis'',
            tokens = int (length (ps @ '' '' @ dl @ result')) div 4,
            cost = real_of_int (int (length (ps @ '' '' @ dl @ result')) div 4) / 1000000 * 9\<rparr>]
      \<and> 0 \<le> tokens (last (session_history (token_tracker s'')))
      \<and> length calls' = 2"
  proof (rule impI)
    assume run: "analyze_project_status p now s ps dl = (s'', calls', Inr result')"
    from analyze_project_status_success [OF run] obtain o1 where
      calls: "calls' = [monitor_request ps, reviewer_request dl o1]" and
      s': "s'' = commit_run now s
                 [''project_status'' \<mapsto> ps, ''deliverables'' \<mapsto> dl,
                  ''status_analysis'' \<mapsto> result']
                 (ps @ '' '' @ dl @ result') ''Status Analysis''"
      by blast
    have hist: "session_history (token_tracker s'')
        = session_history (token_tracker s) @
          [\<lparr>timestamp = now, operation = ''Status Analysis'',
            tokens = int (length (ps @ '' '' @ dl @ result')) div 4,
            cost = real_of_int (int (length (ps @ '' '' @ dl @ result')) div 4) / 1000000 * 9\<rparr>]"
      unfolding s' commit_run_simps add_usage_history estimate_fst estimate_snd ..
    have "tokens (last (session_history (token_tracker s'')))
        = int (length (ps @ '' '' @ dl @ result')) div 4"
      unfolding hist by simp
    with nonneg [of "ps @ '' '' @ dl @ result'"]
    have nn: "0 \<le> tokens (last (session_history (token_tracker s'')))"
      by simp
    have len: "length calls' = 2"
      unfolding calls by simp
    show "session_history (token_tracker s'')
        = session_history (token_tracker s) @
          [\<lparr>timestamp = now, operation = ''Status Analysis'',
            tokens = int (length (ps @ '' '' @ dl @ result')) div 4,
            cost = real_of_int (int (length (ps @ '' '' @ dl @ result')) div 4) / 1000000 * 9\<rparr>]
      \<and> 0 \<le> tokens (last (session_history (token_tracker s'')))
      \<and> length calls' = 2"
      using hist nn len by (intro conjI)
  qed
  show ?thesis
    by (rule conjI [OF planning analysis])
qed

theorem successful_run_appends_one_record_witness:
  "map operation (session_history (token_tracker (fst
      (run_project_planning (stub_provider []) ''09:00:00'' ProjectManagementSystem_init
         ''Build a to-do app'' ''2 devs, 1 designer'')))) = [''Project Planning'']
   \<and> map tokens (session_history (token_tracker (fst
      (run_project_planning (stub_provider []) ''09:00:00'' ProjectManagementSystem_init
         ''Build a to-do app'' ''2 devs, 1 designer'')))) = [14]
   \<and> map operation (session_history (token_tracker (fst
      (analyze_project_status (stub_provider []) ''09:00:00'' ProjectManagementSystem_init
         ''Week 3: backend 70% complete'' ''API docs'')))) = [''Status Analysis'']"
  using successful_run_appends_one_record
    [of "stub_provider []" "''09:00:00''" ProjectManagementSystem_init
        "''Build a to-do app''" "''2 devs, 1 designer''"
        "fst (run_project_planning (stub_provider []) ''09:00:00'' ProjectManagementSystem_init
           ''Build a to-do app'' ''2 devs, 1 designer'')"
        "[planner_request ''Build a to-do app'',
          allocator_request ''Build a to-do app'' ''2 devs, 1 designer'' ''Project Planner: done'']"
        "''Task Allocator: done''"
        "''Week 3: backend 70% complete''" "''API docs''"
        "fst (analyze_project_status (stub_provider []) ''09:00:00'' ProjectManagementSystem_init
           ''Week 3: backend 70% complete'' ''API docs'')"
        "[monitor_request ''Week 3: backend 70% complete'',
          reviewer_request ''API docs'' ''Progress Monitor: done'']"
        "''Quality Reviewer: done''"]
  by (simp add: stub_planning_run stub_analysis_run)

theorem ledger_growth_counterexample:
  "snd (snd (run_project_planning (stub_provider []) ''09:00:00'' ProjectManagementSystem_init
         ''Build a to-do app'' ''2 devs, 1 designer'')) = Inr ''Task Allocator: done''
   \<and> map role (map req_agent (fst (snd (run_project_planning (stub_provider []) ''09:00:00''
         ProjectManagementSystem_init ''Build a to-do app'' ''2 devs, 1 designer''))))
       = [''Project Planner'', ''Task Allocator'']
   \<and> length (session_history (token_tracker ProjectManagementSystem_init)) = 0
   \<and> length (session_history (token_tracker (fst (run_project_planning (stub_provider [])
         ''09:00:00'' ProjectManagementSystem_init ''Build a to-do app'' ''2 devs, 1 designer''))))
       = 1
   \<and> map operation (session_history (token_tracker (fst (run_project_planning (stub_provider [])
         ''09:00:00'' ProjectManagementSystem_init ''Build a to-do app'' ''2 devs, 1 designer''))))
       = [''Project Planning'']"
  by (simp add: stub_planning_run add_usage_history)

subsection \<open>Invocations\<close>


lemma run_project_planning_calls:
  "fst (snd (run_project_planning p now s pd ti)) =
     (case p (planner_request pd) of
        Inl e \<Rightarrow> [planner_request pd]
      | Inr o1 \<Rightarrow> [planner_request pd, allocator_request pd ti o1])"
  by (simp add: run_project_planning_unfold split: sum.splits)

lemma analyze_project_status_calls:
  "fst (snd (analyze_project_status p now s ps dl)) =
     (case p (monitor_request ps) of
        Inl e \<Rightarrow> [monitor_request ps]
      | Inr o1 \<Rightarrow> [monitor_request ps, reviewer_request dl o1])"
  by (simp add: analyze_project_status_unfold split: sum.splits)




subsection \<open>Instructions of the allocator\<close>







subsection \<open>Empty input\<close>

text \<open>
  Claim C8, as the code has it. The entry points do not validate their input: every
  call, also one with an empty text, invokes the provider. Empty input is screened by
  the front-end: when one of the two texts is empty the handler of the button does not
  call the entry point, so the system is unchanged, no invocation is made and nothing,
  in particular no error, is shown.
\<close>

theorem empty_input_screened_by_front_end:
  "(status_info = [] \<or> deliverables_info = [] \<longrightarrow>
      analyze_button_handler p now s analyze_button status_info deliverables_info = (s, [], []))
   \<and> (project_desc = [] \<or> team_info = [] \<longrightarrow>
      plan_button_handler p now s plan_button project_desc team_info = (s, [], []))
   \<and> fst (snd (analyze_project_status p now s ps dl)) \<noteq> []
   \<and> fst (snd (run_project_planning p now s pd ti)) \<noteq> []"
  by (auto simp: analyze_button_handler_def plan_button_handler_def
        analyze_project_status_calls run_project_planning_calls split: sum.splits)

theorem empty_input_screened_by_front_end_witness:
  "analyze_button_handler (stub_provider []) ''09:00:00'' ProjectManagementSystem_init True
      [] ''API docs'' = (ProjectManagementSystem_init, [], [])
   \<and> plan_button_handler (stub_provider []) ''09:00:00'' ProjectManagementSystem_init True
      ''Build a to-do app'' [] = (ProjectManagementSystem_init, [], [])"
  using empty_input_screened_by_front_end
    [of "[]" "''API docs''" "stub_provider []" "''09:00:00''" ProjectManagementSystem_init True
        "''Build a to-do app''" "[]" True]
  by simp

theorem empty_status_counterexample:
  "snd (snd (analyze_project_status (stub_provider []) ''09:00:00'' ProjectManagementSystem_init
      [] ''API docs'')) = Inr ''Quality Reviewer: done''
   \<and> map role (map req_agent (fst (snd (analyze_project_status (stub_provider []) ''09:00:00''
      ProjectManagementSystem_init [] ''API docs''))))
     = [''Progress Monitor'', ''Quality Reviewer'']
   \<and> map operation (session_history (token_tracker (fst (analyze_project_status
      (stub_provider []) ''09:00:00'' ProjectManagementSystem_init [] ''API docs''))))
     = [''Status Analysis'']"
  by (simp add: stub_analysis_run add_usage_history)

subsection \<open>Frame of the report data\<close>

text \<open>
  Claim C10. A successful \<open>run_project_planning\<close> writes the three keys
  \<open>project_description\<close>, \<open>team_info\<close> and \<open>project_plan\<close> of the report data and leaves
  every other key, in particular \<open>project_status\<close>, \<open>deliverables\<close> and
  \<open>status_analysis\<close>, as it was; a successful \<open>analyze_project_status\<close> writes these
  three and leaves every other key, in particular the three of the planning, as it was.
\<close>

theorem report_data_frame:
  "(run_project_planning p now s pd ti = (s', calls, Inr result) \<longrightarrow>
      report_data s' = (report_data s)
        (''project_description'' \<mapsto> pd, ''team_info'' \<mapsto> ti, ''project_plan'' \<mapsto> result)
      \<and> report_data s' ''project_status'' = report_data s ''project_status''
      \<and> report_data s' ''deliverables'' = report_data s ''deliverables''
      \<and> report_data s' ''status_analysis'' = report_data s ''status_analysis''
      \<and> (k \<notin> {''project_description'', ''team_info'', ''project_plan''} \<longrightarrow>
           report_data s' k = report_data s k))
   \<and> (analyze_project_status p now s ps dl = (s'', calls', Inr result') \<longrightarrow>
      report_data s'' = (report_data s)
        (''project_status'' \<mapsto> ps, ''deliverables'' \<mapsto> dl, ''status_analysis'' \<mapsto> result')
      \<and> report_data s'' ''project_description'' = report_data s ''project_description''
      \<and> report_data s'' ''team_info'' = report_data s ''team_info''
      \<and> report_data s'' ''project_plan'' = report_data s ''project_plan''
      \<and> (k \<notin> {''project_status'', ''deliverables'', ''status_analysis''} \<longrightarrow>
           report_data s'' k = report_data s k))"
proof -
  have planning: "report_data s' = (report_data s)
        (''project_description'' \<mapsto> pd, ''team_info'' \<mapsto> ti, ''project_plan'' \<mapsto> result)"
    if "run_project_planning p now s pd ti = (s', calls, Inr result)"
    using run_project_planning_success [OF that] by auto
  have analysis: "report_data s'' = (report_data s)
        (''project_status'' \<mapsto> ps, ''deliverables'' \<mapsto> dl, ''status_analysis'' \<mapsto> result')"
    if "analyze_project_status p now s ps dl = (s'', calls', Inr result')"
    using analyze_project_status_success [OF that] by auto
  show ?thesis
    using planning analysis by simp
qed

theorem report_data_frame_witness:
  "report_data (fst (run_project_planning (stub_provider []) ''09:10:00''
      (fst (analyze_project_status (stub_provider []) ''09:00:00'' ProjectManagementSystem_init
         ''Week 3: backend 70% complete'' ''API docs''))
      ''Build a to-do app'' ''2 devs, 1 designer'')) ''project_status''
     = Some ''Week 3: backend 70% complete''
   \<and> report_data (fst (run_project_planning (stub_provider []) ''09:10:00''
      (fst (analyze_project_status (stub_provider []) ''09:00:00'' ProjectManagementSystem_init
         ''Week 3: backend 70% complete'' ''API docs''))
      ''Build a to-do app'' ''2 devs, 1 designer'')) ''status_analysis''
     = Some ''Quality Reviewer: done''
   \<and> report_data (fst (analyze_project_status (stub_provider []) ''09:10:00''
      (fst (analyze_project_status (stub_provider []) ''09:00:00'' ProjectManagementSystem_init
         ''Week 3: backend 70% complete'' ''API docs''))
      ''Week 4: done'' ''API docs'')) ''project_plan''
     = None"
  using report_data_frame
    [of "stub_provider []" "''09:10:00''"
        "fst (analyze_project_status (stub_provider []) ''09:00:00'' ProjectManagementSystem_init
           ''Week 3: backend 70% complete'' ''API docs'')"
        "''Build a to-do app''" "''2 devs, 1 designer''"
        "fst (run_project_planning (stub_provider []) ''09:10:00''
          (fst (analyze_project_status (stub_provider []) ''09:00:00'' ProjectManagementSystem_init
             ''Week 3: backend 70% complete'' ''API docs''))
          ''Build a to-do app'' ''2 devs, 1 designer'')"
        "[planner_request ''Build a to-do app'',
          allocator_request ''Build a to-do app'' ''2 devs, 1 designer'' ''Project Planner: done'']"
        "''Task Allocator: done''"
        "''project_status''"
        "''Week 4: done''" "''API docs''"
        "fst (analyze_project_status (stub_provider []) ''09:10:00''
          (fst (analyze_project_status (stub_provider []) ''09:00:00'' ProjectManagementSystem_init
             ''Week 3: backend 70% complete'' ''API docs''))
          ''Week 4: done'' ''API docs'')"
        "[monitor_request ''Week 4: done'',
          reviewer_request ''API docs'' ''Progress Monitor: done'']"
        "''Quality Reviewer: done''"]
  by (simp add: stub_planning_run stub_analysis_run)

subsection \<open>The report\<close>

lemma snapshot_sections_unfold:
  "snapshot_sections pd =
     (case pd ''project_description'' of None \<Rightarrow> []
      | Some v \<Rightarrow> section_flowables ''project_description'' v)
     @ (case pd ''team_info'' of None \<Rightarrow> [] | Some v \<Rightarrow> section_flowables ''team_info'' v)
     @ (case pd ''project_plan'' of None \<Rightarrow> []
        | Some v \<Rightarrow> section_flowables ''project_plan'' v)
     @ (case pd ''status_analysis'' of None \<Rightarrow> []
        | Some v \<Rightarrow> section_flowables ''status_analysis'' v)"
  by (simp add: snapshot_sections_def)

lemma section_flowables_simps:
  "section_flowables ''project_description'' v =
     [Paragraph ([CHR 0xF0, CHR 0x9F, CHR 0x93, CHR 0x8B] @ '' Project Overview'') heading_style,
      Paragraph (''<b>Description:</b> '' @ v) normal_style]"
  "section_flowables ''team_info'' v =
     [Paragraph (''<b>Team:</b> '' @ v) normal_style, Spacer 1 15]"
  "section_flowables ''project_plan'' v =
     [Paragraph ([CHR 0xF0, CHR 0x9F, CHR 0x8E, CHR 0xAF] @ '' Project Plan'') heading_style,
      Paragraph (replace_newline ''<br/>'' v) normal_style, Spacer 1 15]"
  "section_flowables ''status_analysis'' v =
     [Paragraph ([CHR 0xF0, CHR 0x9F, CHR 0x93, CHR 0x8A] @ '' Status Analysis'') heading_style,
      Paragraph (replace_newline ''<br/>'' v) normal_style, Spacer 1 15]"
  by (simp_all add: section_flowables_def)

lemma report_as_sections:
  "generate_project_report d pd tu =
     take 4 (generate_project_report d Map.empty tu) @ snapshot_sections pd
     @ drop 4 (generate_project_report d Map.empty tu)"
  by (simp add: generate_project_report_def snapshot_sections_unfold section_flowables_simps
        split: option.splits)

lemma snapshot_sections_frame:
  "snapshot_sections (pd(''project_status'' := x, ''deliverables'' := y)) = snapshot_sections pd"
  by (simp add: snapshot_sections_unfold)

lemma usage_table_in_report:
  "Table
     [[Text ''Metric'', Text ''Value''],
      [Text ''Total Tokens Used'', FmtCommas (summary_total_tokens tu)],
      [Text ''Estimated Cost'', FmtDollars (summary_total_cost tu)],
      [Text ''Operations Performed'', FmtInt (int (operations tu))]]
   \<in> set (generate_project_report d pd tu)"
  by (simp add: generate_project_report_def)

text \<open>
  Claim C9, as the code has it. For a given date of generation the story of the report
  is determined by the report data and the ledger summary: it is the story for the
  empty report data with the sections of the populated keys inserted after the
  header, where only \<open>project_description\<close>, \<open>team_info\<close>, \<open>project_plan\<close> and
  \<open>status_analysis\<close> have a section and an absent one contributes nothing. The keys
  \<open>project_status\<close> and \<open>deliverables\<close> have no influence on the report. The table of the
  ledger summary is always part of it.
\<close>

theorem report_includes_rendered_sections:
  "generate_project_report d pd tu =
     take 4 (generate_project_report d Map.empty tu) @ snapshot_sections pd
     @ drop 4 (generate_project_report d Map.empty tu)
   \<and> generate_project_report d (pd(''project_status'' := x, ''deliverables'' := y)) tu
     = generate_project_report d pd tu
   \<and> Table
        [[Text ''Metric'', Text ''Value''],
         [Text ''Total Tokens Used'', FmtCommas (summary_total_tokens tu)],
         [Text ''Estimated Cost'', FmtDollars (summary_total_cost tu)],
         [Text ''Operations Performed'', FmtInt (int (operations tu))]]
     \<in> set (generate_project_report d pd tu)"
proof -
  have "generate_project_report d (pd(''project_status'' := x, ''deliverables'' := y)) tu
      = take 4 (generate_project_report d Map.empty tu)
        @ snapshot_sections (pd(''project_status'' := x, ''deliverables'' := y))
        @ drop 4 (generate_project_report d Map.empty tu)"
    by (rule report_as_sections)
  also have "\<dots> = take 4 (generate_project_report d Map.empty tu) @ snapshot_sections pd
        @ drop 4 (generate_project_report d Map.empty tu)"
    by (simp only: snapshot_sections_frame)
  also have "\<dots> = generate_project_report d pd tu"
    by (rule report_as_sections [symmetric])
  finally have frame:
    "generate_project_report d (pd(''project_status'' := x, ''deliverables'' := y)) tu
       = generate_project_report d pd tu" .
  show ?thesis
    by (intro conjI, rule report_as_sections, rule frame, rule usage_table_in_report)
qed

lemma stub_analysis_report_data:
  "report_data (fst (analyze_project_status (stub_provider []) now ProjectManagementSystem_init
      ps dl))
     = [''project_status'' \<mapsto> ps, ''deliverables'' \<mapsto> dl,
        ''status_analysis'' \<mapsto> ''Quality Reviewer: done'']"
  by (simp add: stub_analysis_run)

lemma stub_analysis_sections:
  "snapshot_sections (report_data (fst (analyze_project_status (stub_provider [])
      ''09:00:00'' ProjectManagementSystem_init ''Week 3: backend 70% complete'' ''API docs'')))
     = [Paragraph ([CHR 0xF0, CHR 0x9F, CHR 0x93, CHR 0x8A] @ '' Status Analysis'')
          heading_style,
        Paragraph ''Quality Reviewer: done'' normal_style,
        Spacer 1 15]"
  by (simp add: stub_analysis_report_data snapshot_sections_unfold section_flowables_simps
        replace_newline_def)

theorem report_includes_rendered_sections_witness:
  "generate_project_report ''November 04, 2026 at 09:30 AM''
        (report_data (fst (analyze_project_status (stub_provider []) ''09:00:00''
           ProjectManagementSystem_init ''Week 3: backend 70% complete'' ''API docs'')))
        (get_summary TokenUsageTracker_init)
     = take 4 (generate_project_report ''November 04, 2026 at 09:30 AM'' Map.empty
         (get_summary TokenUsageTracker_init))
       @ [Paragraph ([CHR 0xF0, CHR 0x9F, CHR 0x93, CHR 0x8A] @ '' Status Analysis'')
            heading_style,
          Paragraph ''Quality Reviewer: done'' normal_style,
          Spacer 1 15]
       @ drop 4 (generate_project_report ''November 04, 2026 at 09:30 AM'' Map.empty
         (get_summary TokenUsageTracker_init))"
proof -
  have "generate_project_report ''November 04, 2026 at 09:30 AM''
        (report_data (fst (analyze_project_status (stub_provider []) ''09:00:00''
           ProjectManagementSystem_init ''Week 3: backend 70% complete'' ''API docs'')))
        (get_summary TokenUsageTracker_init)
     = take 4 (generate_project_report ''November 04, 2026 at 09:30 AM'' Map.empty
         (get_summary TokenUsageTracker_init))
       @ snapshot_sections (report_data (fst (analyze_project_status (stub_provider [])
           ''09:00:00'' ProjectManagementSystem_init ''Week 3: backend 70% complete''
           ''API docs'')))
       @ drop 4 (generate_project_report ''November 04, 2026 at 09:30 AM'' Map.empty
         (get_summary TokenUsageTracker_init))"
    using report_includes_rendered_sections
      [of "''November 04, 2026 at 09:30 AM''"
          "report_data (fst (analyze_project_status (stub_provider []) ''09:00:00''
             ProjectManagementSystem_init ''Week 3: backend 70% complete'' ''API docs''))"
          "get_summary TokenUsageTracker_init" None None]
    by (rule conjunct1)
  then show ?thesis
    unfolding stub_analysis_sections .
qed

lemma stub_analysis_story:
  "generate_pdf_report ''November 04, 2026 at 09:30 AM''
     (fst (analyze_project_status (stub_provider []) ''09:00:00''
        ProjectManagementSystem_init ''Week 3: backend 70% complete'' ''API docs''))
   = [Paragraph ([CHR 0xF0, CHR 0x9F, CHR 0x9A, CHR 0x80] @ '' Project Management Report'')
        title_style,
      Spacer 1 20,
      Paragraph ''<b>Generated:</b> November 04, 2026 at 09:30 AM'' normal_style,
      Spacer 1 20,
      Paragraph ([CHR 0xF0, CHR 0x9F, CHR 0x93, CHR 0x8A] @ '' Status Analysis'') heading_style,
      Paragraph ''Quality Reviewer: done'' normal_style,
      Spacer 1 15,
      Paragraph ([CHR 0xF0, CHR 0x9F, CHR 0x92, CHR 0xB0] @ '' Token Usage Summary'')
        heading_style,
      Table
        [[Text ''Metric'', Text ''Value''],
         [Text ''Total Tokens Used'', FmtCommas 14],
         [Text ''Estimated Cost'', FmtDollars (Fadd (Float 0) (Float (126 / 1000000)))],
         [Text ''Operations Performed'', FmtInt 1]],
      Spacer 1 15,
      Paragraph ([CHR 0xF0, CHR 0x9F, CHR 0x95, CHR 0x92] @ '' Operation History'')
        heading_style,
      Table
        [[Text ''Time'', Text ''Operation'', Text ''Tokens'', Text ''Cost''],
         [Text ''09:00:00'', Text ''Status Analysis'', FmtInt 14,
          FmtDollars (Float (126 / 1000000))]],
      Spacer 1 30,
      Paragraph ''Generated by AI-Powered Project Management System'' footer_style]"
  by (simp add: stub_analysis_run generate_pdf_report_def generate_project_report_def
        get_summary_def add_usage_def py_slice_from_10 replace_newline_def
        estimate_fst estimate_snd)

theorem populated_section_omitted_counterexample:
  "report_data (fst (analyze_project_status (stub_provider []) ''09:00:00''
      ProjectManagementSystem_init ''Week 3: backend 70% complete'' ''API docs''))
      ''project_status'' = Some ''Week 3: backend 70% complete''
   \<and> \<not> mentions ''Week 3: backend 70% complete''
        (generate_pdf_report ''November 04, 2026 at 09:30 AM''
           (fst (analyze_project_status (stub_provider []) ''09:00:00''
              ProjectManagementSystem_init ''Week 3: backend 70% complete'' ''API docs'')))
   \<and> report_data (fst (analyze_project_status (stub_provider []) ''09:00:00''
      ProjectManagementSystem_init ''Week 3: backend 70% complete'' ''API docs''))
      ''deliverables'' = Some ''API docs''
   \<and> \<not> mentions ''API docs''
        (generate_pdf_report ''November 04, 2026 at 09:30 AM''
           (fst (analyze_project_status (stub_provider []) ''09:00:00''
              ProjectManagementSystem_init ''Week 3: backend 70% complete'' ''API docs'')))"
  unfolding stub_analysis_story
  by (simp add: stub_analysis_report_data mentions_def sublist_code)

end
